theory Spec2Isabelle
  imports Complex_Main
begin

section \<open>Text helpers shared by the three programs\<close>

text \<open>
  Python \<open>str\<close> values are modelled as HOL strings; a \<open>char\<close> stands for the code
  point of the same number (0 to 255). \<open>py_isspace\<close> lists the code points below 256
  for which \<open>str.isspace\<close> (and the regular-expression class \<open>\s\<close>) holds, \<open>py_isdigit\<close>
  those of the class \<open>\d\<close>.
\<close>

definition py_isspace :: "char \<Rightarrow> bool" where
  "py_isspace c =
     (let n = (of_char c :: nat)
      in (9 \<le> n \<and> n \<le> 13) \<or> (28 \<le> n \<and> n \<le> 32) \<or> n = 133 \<or> n = 160)"

definition py_isdigit :: "char \<Rightarrow> bool" where
  "py_isdigit c = (let n = (of_char c :: nat) in 48 \<le> n \<and> n \<le> 57)"

text \<open>\<open>s.strip()\<close>: whitespace removed at both ends.\<close>

definition strip :: "string \<Rightarrow> string" where
  "strip s = rev (dropWhile py_isspace (rev (dropWhile py_isspace s)))"

text \<open>\<open>w in txt\<close> on strings: \<open>w\<close> occurs as a contiguous run of \<open>txt\<close>.\<close>

fun starts_with :: "string \<Rightarrow> string \<Rightarrow> bool" where
  "starts_with txt [] = True"
| "starts_with [] (w # ws) = False"
| "starts_with (c # cs) (w # ws) = (c = w \<and> starts_with cs ws)"

fun contains :: "string \<Rightarrow> string \<Rightarrow> bool" where
  "contains [] w = (w = [])"
| "contains (c # cs) w = (starts_with (c # cs) w \<or> contains cs w)"

text \<open>\<open>str(n)\<close> for an integer: decimal digits, with a minus sign when negative.\<close>

definition digit_char :: "nat \<Rightarrow> char" where
  "digit_char d = ''0123456789'' ! d"

function str_nat :: "nat \<Rightarrow> string" where
  "str_nat n = (if n < 10 then [digit_char n] else str_nat (n div 10) @ [digit_char (n mod 10)])"
  by pat_completeness auto
termination
  by (relation "measure (\<lambda>n. n)") auto

declare str_nat.simps [simp del]

definition str_int :: "int \<Rightarrow> string" where
  "str_int i = (if i < 0 then CHR ''-'' # str_nat (nat (- i)) else str_nat (nat i))"


section \<open>The sandboxed command executor (core/config.py, core/commands.py, core/executor.py)\<close>

subsection \<open>Settings and the command registry\<close>

record settings =
  MAX_CONCURRENT_EXECUTIONS :: int
  DEFAULT_TIMEOUT :: int
  MAX_TIMEOUT :: int
  SCRIPTS_DIR :: string

text \<open>The defaults of \<open>Settings\<close>; the scripts directory is whatever the installation has.\<close>

definition default_settings :: "string \<Rightarrow> settings" where
  "default_settings dir =
     \<lparr> MAX_CONCURRENT_EXECUTIONS = 3, DEFAULT_TIMEOUT = 30, MAX_TIMEOUT = 120,
       SCRIPTS_DIR = dir \<rparr>"

text \<open>
  Argument values as they arrive from a JSON body, and the Python types a schema may
  name. \<open>isinstance\<close> follows Python: \<open>bool\<close> is a subclass of \<open>int\<close>.
\<close>

datatype pyval = VNone | VBool bool | VInt int | VStr string

datatype pytype = TBool | TInt | TStr

fun isinstance :: "pyval \<Rightarrow> pytype \<Rightarrow> bool" where
  "isinstance (VBool b) TBool = True"
| "isinstance (VBool b) TInt = True"
| "isinstance (VInt i) TInt = True"
| "isinstance (VStr s) TStr = True"
| "isinstance v t = False"

fun py_str :: "pyval \<Rightarrow> string" where
  "py_str VNone = ''None''"
| "py_str (VBool b) = (if b then ''True'' else ''False'')"
| "py_str (VInt i) = str_int i"
| "py_str (VStr s) = s"

text \<open>A dict is an association list in insertion order, as Python iterates it.\<close>

type_synonym args = "(string \<times> pyval) list"

record CommandDefinition =
  name :: string
  script_path :: string
  description :: string
  timeout_default :: int
  args_schema :: "(string \<times> pytype) list"

text \<open>\<open>CommandDefinition.validate_args\<close>.\<close>

definition validate_args :: "CommandDefinition \<Rightarrow> args \<Rightarrow> bool" where
  "validate_args cd a =
     (if args_schema cd = [] then length a = 0
      else list_all (\<lambda>(key, expected_type).
             (case map_of a key of
                None \<Rightarrow> True
              | Some v \<Rightarrow> isinstance v expected_type)) (args_schema cd))"

type_synonym registry = "string \<rightharpoonup> CommandDefinition"

text \<open>
  The whitelist built by \<open>_initialize_commands\<close>. Path joining is written as string
  concatenation with a separator; the existence check of each script happens at start-up
  and is not part of a call to the executor.
\<close>

definition whitelist :: "string \<Rightarrow> CommandDefinition list" where
  "whitelist dir =
     [ \<lparr> name = ''send_alert_power'', script_path = dir @ ''/send_alert_power_sms.py'',
         description = ''Send power outage alert SMS to configured recipients'',
         timeout_default = 60, args_schema = [] \<rparr>,
       \<lparr> name = ''send_alert_network'', script_path = dir @ ''/send_alert_network_sms.py'',
         description = ''Send network outage alert SMS to configured recipients'',
         timeout_default = 60, args_schema = [] \<rparr>,
       \<lparr> name = ''send_reminder'', script_path = dir @ ''/send_reminder_sms.py'',
         description = ''Send reminder SMS about ongoing outage'',
         timeout_default = 60, args_schema = [] \<rparr>,
       \<lparr> name = ''send_clear'', script_path = dir @ ''/send_clear_sms.py'',
         description = ''Send clear/recovery SMS notification'',
         timeout_default = 60, args_schema = [] \<rparr> ]"

definition initialize_commands :: "string \<Rightarrow> registry" where
  "initialize_commands dir = fold (\<lambda>cmd m. m(name cmd \<mapsto> cmd)) (whitelist dir) Map.empty"

definition get_command :: "registry \<Rightarrow> string \<Rightarrow> CommandDefinition option" where
  "get_command reg nm = reg nm"

definition validate_command_args :: "registry \<Rightarrow> string \<Rightarrow> args \<Rightarrow> bool \<times> string option" where
  "validate_command_args reg nm a =
     (case get_command reg nm of
        None \<Rightarrow> (False, Some (''Command '' @ [CHR 0x27] @ nm @ [CHR 0x27] @ '' not found''))
      | Some cmd \<Rightarrow>
          if \<not> validate_args cmd a
          then (False, Some (''Invalid arguments for command '' @ [CHR 0x27] @ nm @ [CHR 0x27]))
          else (True, None))"

subsection \<open>Execution results, the child process and the effects of one call\<close>

text \<open>
  Timestamps are microseconds since the epoch (the resolution of \<open>datetime\<close>); their
  rendering by \<open>isoformat\<close> is left out. \<open>duration_ms\<close> is the difference of two
  timestamps in milliseconds, a real number here.
\<close>

record ExecutionResult =
  success :: bool
  stdout :: string
  stderr :: string
  exit_code :: int
  duration_ms :: real
  started_at :: int
  completed_at :: int
  error_message :: "string option"

text \<open>
  What the operating system does with the child is an input of the model:
  whether \<open>create_subprocess_exec\<close> raises, what \<open>wait_for(process.communicate(), t)\<close>
  does for the command vector and the timeout it is given, and whether \<open>process.kill()\<close>
  raises (it does when the child is already gone). The two clock readings of a call are
  inputs as well.
\<close>

datatype comm_outcome =
    Completed string string int
  | TimeoutError
  | CommRaised string

record exec_env =
  sys_executable :: string
  now_started :: int
  now_completed :: int
  spawn_raises :: "string list \<Rightarrow> string option"
  communicate :: "string list \<Rightarrow> int \<Rightarrow> comm_outcome"
  kill_raises :: bool

text \<open>
  The effects of a call, in the order in which the code performs them: each event is one
  call on the gate or on the process (\<open>Kill\<close> is the call \<open>process.kill()\<close>,
  \<open>AwaitTeardown\<close> is \<open>await process.wait()\<close>). Log lines are left out.
\<close>

datatype exec_event =
    GateAcquire
  | Spawn "string list"
  | WaitFor int
  | Kill
  | AwaitTeardown
  | GateRelease

subsection \<open>\<open>SafeExecutor\<close>\<close>

definition validate_timeout :: "settings \<Rightarrow> int \<Rightarrow> int" where
  "validate_timeout st timeout =
     (if timeout < 1 then DEFAULT_TIMEOUT st
      else if timeout > MAX_TIMEOUT st then MAX_TIMEOUT st
      else timeout)"

definition build_command :: "exec_env \<Rightarrow> CommandDefinition \<Rightarrow> args \<Rightarrow> string list" where
  "build_command env cmd_def a =
     [sys_executable env, script_path cmd_def]
     @ concat (map (\<lambda>(key, v). [''--'' @ key, py_str v]) a)"

definition duration_of :: "int \<Rightarrow> int \<Rightarrow> real" where
  "duration_of t0 t1 = real_of_int (t1 - t0) / 1000"

text \<open>
  The handler of \<open>asyncio.TimeoutError\<close>: \<open>process.kill()\<close>, then
  \<open>await process.wait()\<close>, both guarded by one \<open>except Exception\<close> that only logs: a
  kill that raises skips the wait.
\<close>

definition kill_on_timeout :: "exec_env \<Rightarrow> exec_event list" where
  "kill_on_timeout env = (if kill_raises env then [Kill] else [Kill, AwaitTeardown])"

text \<open>
  The body of \<open>async with self.limiter\<close>: spawn, bounded wait, and the ways out of
  it. It returns the result and the effects between acquiring and releasing the gate.
\<close>

definition run_child ::
  "exec_env \<Rightarrow> string list \<Rightarrow> int \<Rightarrow> ExecutionResult \<times> exec_event list" where
  "run_child env command exec_timeout =
     (case spawn_raises env command of
        Some e \<Rightarrow>
          (\<lparr> success = False, stdout = [], stderr = e, exit_code = - 1,
             duration_ms = duration_of (now_started env) (now_completed env),
             started_at = now_started env, completed_at = now_completed env,
             error_message = Some (''Execution error: '' @ e) \<rparr>,
           [Spawn command])
      | None \<Rightarrow>
          (case communicate env command exec_timeout of
             TimeoutError \<Rightarrow>
               (\<lparr> success = False, stdout = [], stderr = [], exit_code = - 1,
                  duration_ms = duration_of (now_started env) (now_completed env),
                  started_at = now_started env, completed_at = now_completed env,
                  error_message =
                    Some (''Command exceeded timeout of '' @ str_int exec_timeout @ ''s'') \<rparr>,
                [Spawn command, WaitFor exec_timeout] @ kill_on_timeout env)
           | CommRaised e \<Rightarrow>
               (\<lparr> success = False, stdout = [], stderr = e, exit_code = - 1,
                  duration_ms = duration_of (now_started env) (now_completed env),
                  started_at = now_started env, completed_at = now_completed env,
                  error_message = Some (''Execution error: '' @ e) \<rparr>,
                [Spawn command, WaitFor exec_timeout])
           | Completed stdout_data stderr_data rc \<Rightarrow>
               (\<lparr> success = (rc = 0), stdout = strip stdout_data, stderr = strip stderr_data,
                  exit_code = rc,
                  duration_ms = duration_of (now_started env) (now_completed env),
                  started_at = now_started env, completed_at = now_completed env,
                  error_message =
                    (if rc = 0 then None
                     else Some (''Command failed with exit code '' @ str_int rc)) \<rparr>,
                [Spawn command, WaitFor exec_timeout])))"

definition execute_command ::
  "settings \<Rightarrow> registry \<Rightarrow> exec_env \<Rightarrow> string \<Rightarrow> args option \<Rightarrow> int option
   \<Rightarrow> ExecutionResult \<times> exec_event list" where
  "execute_command st reg env command_name args_opt timeout =
     (let a = (case args_opt of None \<Rightarrow> [] | Some a \<Rightarrow> a) in
      case get_command reg command_name of
        None \<Rightarrow>
          (\<lparr> success = False, stdout = [], stderr = [], exit_code = - 1,
             duration_ms = 0, started_at = now_started env, completed_at = now_started env,
             error_message =
               Some (''Command '' @ [CHR 0x27] @ command_name @ [CHR 0x27]
                     @ '' not found in registry'') \<rparr>,
           [])
      | Some cmd_def \<Rightarrow>
          (case validate_command_args reg command_name a of
             (False, error_msg) \<Rightarrow>
               (\<lparr> success = False, stdout = [], stderr = [], exit_code = - 1,
                  duration_ms = 0, started_at = now_started env,
                  completed_at = now_started env, error_message = error_msg \<rparr>,
                [])
           | (True, _) \<Rightarrow>
               (let exec_timeout =
                      validate_timeout st
                        (case timeout of Some t \<Rightarrow> t | None \<Rightarrow> timeout_default cmd_def);
                    command = build_command env cmd_def a;
                    (res, evs) = run_child env command exec_timeout
                in (res, [GateAcquire] @ evs @ [GateRelease]))))"

section \<open>The connectivity monitor (network_monitor.py)\<close>

record monitor_config =
  router_ip :: string
  internet_ip :: string
  check_interval_seconds :: int
  ping_count :: int
  failure_threshold :: int
  reminder_interval_seconds :: int
  alert_power_script :: string
  alert_network_script :: string
  reminder_script :: string
  clear_script :: string

text \<open>The numeric and script entries of \<open>DEFAULTS\<close>, after the casts of \<open>load_config\<close>.\<close>

definition DEFAULTS :: monitor_config where
  "DEFAULTS =
     \<lparr> router_ip = ''172.168.133.1'', internet_ip = ''8.8.8.8'',
       check_interval_seconds = 30, ping_count = 4, failure_threshold = 4,
       reminder_interval_seconds = 300,
       alert_power_script = ''send_alert_power_sms.py'',
       alert_network_script = ''send_alert_network_sms.py'',
       reminder_script = ''send_reminder_sms.py'',
       clear_script = ''send_clear_sms.py'' \<rparr>"

text \<open>
  What \<open>subprocess.run\<close> does with the ping command: it returns an exit status or it
  raises. \<open>run_ping\<close> maps a raise to \<open>False\<close>.
\<close>

datatype ping_result = Returncode int | PingRaised

definition run_ping :: "ping_result \<Rightarrow> bool" where
  "run_ping r = (case r of Returncode rc \<Rightarrow> rc = 0 | PingRaised \<Rightarrow> False)"

text \<open>
  The local variables of \<open>main\<close> that survive an iteration of its loop. The monotonic
  clock is a real number of seconds.
\<close>

record monitor_state =
  failure_streak :: int
  in_outage :: bool
  last_reminder_monotonic :: real

definition initial_state :: monitor_state where
  "initial_state = \<lparr> failure_streak = 0, in_outage = False, last_reminder_monotonic = 0 \<rparr>"

text \<open>
  The inputs of one iteration: the outcome of the ping of the primary target, the outcome
  the ping of the router has if the iteration issues it, and the readings of
  \<open>time.monotonic()\<close>: the first call of the iteration, and the call that follows the
  reminder script.
\<close>

record tick_input =
  primary :: ping_result
  router :: ping_result
  monotonic_first :: real
  monotonic_after_reminder :: real

text \<open>
  The effects of an iteration: \<open>Ping ip count\<close> is a call \<open>run_ping(ip, count)\<close>,
  \<open>RunScript s\<close> a call \<open>run_script(s)\<close>, \<open>SleepInterval n\<close> the closing
  \<open>time.sleep(check_interval)\<close>. Log lines are left out.
\<close>

datatype monitor_event =
    Ping string int
  | RunScript string
  | SleepInterval int

definition tick :: "monitor_config \<Rightarrow> tick_input \<Rightarrow> monitor_state
                      \<Rightarrow> monitor_state \<times> monitor_event list" where
  "tick cfg inp s =
     (let ok = run_ping (primary inp);
          probe = Ping (internet_ip cfg) (ping_count cfg);
          pause = SleepInterval (check_interval_seconds cfg)
      in if ok then
           (if in_outage s
            then (s\<lparr> in_outage := False, failure_streak := 0 \<rparr>,
                  [probe, RunScript (clear_script cfg), pause])
            else (s\<lparr> failure_streak := 0 \<rparr>, [probe, pause]))
         else
           (let s1 = s\<lparr> failure_streak := failure_streak s + 1 \<rparr>
            in if \<not> in_outage s1 \<and> failure_streak s1 \<ge> failure_threshold cfg then
                 (let router_ok = run_ping (router inp)
                  in (s1\<lparr> in_outage := True,
                          last_reminder_monotonic := monotonic_first inp \<rparr>,
                      [probe, Ping (router_ip cfg) 1,
                       RunScript (if router_ok then alert_network_script cfg
                                  else alert_power_script cfg),
                       pause]))
               else if in_outage s1 then
                 (if monotonic_first inp - last_reminder_monotonic s1
                       \<ge> real_of_int (reminder_interval_seconds cfg)
                  then (s1\<lparr> last_reminder_monotonic := monotonic_after_reminder inp \<rparr>,
                        [probe, RunScript (reminder_script cfg), pause])
                  else (s1, [probe, pause]))
               else (s1, [probe, pause])))"

text \<open>
  The \<open>while not stop_flag["stop"]\<close> loop over the iterations that run before the stop
  flag is seen. \<open>monitor_states\<close> lists the state before the first iteration and after
  each one; \<open>monitor_events\<close> lists the effects of each iteration.
\<close>

fun monitor_states :: "monitor_config \<Rightarrow> tick_input list \<Rightarrow> monitor_state
                         \<Rightarrow> monitor_state list" where
  "monitor_states cfg [] s = [s]"
| "monitor_states cfg (inp # inps) s = s # monitor_states cfg inps (fst (tick cfg inp s))"

fun monitor_events :: "monitor_config \<Rightarrow> tick_input list \<Rightarrow> monitor_state
                         \<Rightarrow> monitor_event list list" where
  "monitor_events cfg [] s = []"
| "monitor_events cfg (inp # inps) s =
     snd (tick cfg inp s) # monitor_events cfg inps (fst (tick cfg inp s))"

text \<open>The scripts run and the pings issued among the effects of an iteration, in order.\<close>

definition scripts_run :: "monitor_event list \<Rightarrow> string list" where
  "scripts_run evs = concat (map (\<lambda>e. case e of RunScript s \<Rightarrow> [s] | _ \<Rightarrow> []) evs)"

definition pings_issued :: "monitor_event list \<Rightarrow> (string \<times> int) list" where
  "pings_issued evs = concat (map (\<lambda>e. case e of Ping ip n \<Rightarrow> [(ip, n)] | _ \<Rightarrow> []) evs)"


section \<open>The SMS sender (send_reminder_sms.py)\<close>

subsection \<open>Exceptions, floats and \<open>time.sleep\<close>\<close>

text \<open>
  A call of this program returns, or it is left by an exception. \<open>sys.exit(n)\<close> raises
  \<open>SystemExit(n)\<close>, here \<open>Exit n\<close>; the other exceptions the program's own statements
  raise are those of \<open>py_exception\<close>. A result is \<open>Inr\<close> of what was returned or \<open>Inl\<close>
  of what left the call.
\<close>

datatype py_exception = UnicodeEncodeError | OverflowError | ValueError | OSError

datatype abnormal = Exit int | Raise py_exception

text \<open>
  \<open>cfg.getfloat\<close> yields a Python float: a finite number, an infinity or NaN (the strings
  \<open>inf\<close>, \<open>-inf\<close> and \<open>nan\<close> are accepted). A finite float is taken as the real number it
  denotes. \<open>float_gt a b\<close> is \<open>a > b\<close>, and \<open>py_max a b\<close> is \<open>max(a, b)\<close>, which keeps its
  first argument unless the second compares greater.
\<close>

datatype pyfloat = Finite real | PosInf | NegInf | NaN

fun float_gt :: "pyfloat \<Rightarrow> pyfloat \<Rightarrow> bool" where
  "float_gt NaN b = False"
| "float_gt a NaN = False"
| "float_gt (Finite x) (Finite y) = (y < x)"
| "float_gt PosInf PosInf = False"
| "float_gt PosInf b = True"
| "float_gt a PosInf = False"
| "float_gt NegInf b = False"
| "float_gt a NegInf = True"

definition py_max :: "pyfloat \<Rightarrow> pyfloat \<Rightarrow> pyfloat" where
  "py_max a b = (if float_gt b a then b else a)"

text \<open>
  \<open>time.sleep(secs)\<close> turns the duration into a signed 64-bit count of nanoseconds and
  raises \<open>OverflowError\<close> when it does not fit, that is from \<open>2^63\<close> ns (some 9.2e9 s) on
  and for the infinities; it raises \<open>ValueError\<close> for NaN and for a negative duration.
  A duration that passes these checks is handed to the platform, which sleeps or refuses:
  on Linux the sleep runs to an absolute deadline of the monotonic clock, and a deadline
  beyond the range of that clock gives \<open>OSError\<close>. Which durations the platform refuses
  depends on the machine and on its clock; it is the parameter \<open>refused\<close> of
  \<open>time_sleep\<close> and of the functions that sleep. The rounding of the float product at
  the limit is not modelled.
\<close>

definition sleep_limit :: real where
  "sleep_limit = 2 ^ 63 / 10 ^ 9"

subsection \<open>The serial line\<close>

text \<open>
  The values read from the configuration file are taken as parsed, and the answers of the
  modem as decoded text. Once the port is open, the calls on the port and the calls of the
  logger and of \<open>print\<close> are taken not to raise.

  A call of \<open>read_until\<close> polls the port until a token shows or its deadline passes. What
  the modem delivers to one call is a list of chunks, one for each round of the polling
  loop that starts before the deadline (the empty chunk when \<open>in_waiting\<close> is 0); the
  50 ms pause that ends a round is part of the round, and the length of the list is what
  the \<open>timeout\<close> argument of the call allows. \<open>rx\<close> holds these lists for the calls
  still to come (when it is empty the modem stays silent), \<open>trace\<close> the effects so far.

  The effects are the calls on the port (\<open>reset_input_buffer\<close>, \<open>write\<close>, \<open>flush\<close>,
  \<open>close\<close>), the calls of \<open>time.sleep\<close> in \<open>handshake_and_prepare\<close> and \<open>main\<close> that
  return, and the four log lines of \<open>send_sms_to_number\<close>, kept as records: the
  announcement, the missing prompt with the raw response, the success with the message
  reference, the failure with the raw response. The other log lines are left out.
\<close>

datatype log_record =
    SendingTo string
  | NoPrompt string string
  | Sent string string
  | SendFailed string string

datatype ser_event =
    ResetInput
  | Write string
  | Flush
  | Sleep real
  | Log log_record
  | Close

record serial =
  rx :: "string list list"
  trace :: "ser_event list"

definition emit :: "ser_event list \<Rightarrow> serial \<Rightarrow> serial" where
  "emit evs ser = ser\<lparr> trace := trace ser @ evs \<rparr>"

definition time_sleep :: "(real \<Rightarrow> bool) \<Rightarrow> pyfloat \<Rightarrow> serial
                          \<Rightarrow> (abnormal + unit) \<times> serial" where
  "time_sleep refused secs ser =
     (case secs of
        Finite x \<Rightarrow>
          if sleep_limit \<le> \<bar>x\<bar> then (Inl (Raise OverflowError), ser)
          else if x < 0 then (Inl (Raise ValueError), ser)
          else if refused x then (Inl (Raise OSError), ser)
          else (Inr (), emit [Sleep x] ser)
      | PosInf \<Rightarrow> (Inl (Raise OverflowError), ser)
      | NegInf \<Rightarrow> (Inl (Raise OverflowError), ser)
      | NaN \<Rightarrow> (Inl (Raise ValueError), ser))"

text \<open>
  Statements in sequence: what follows runs on the line the first part left, and only if
  the first part returned. \<open>sys_exit\<close> is \<open>sys.exit(n)\<close>, \<open>proceed\<close> is falling through
  with a result.
\<close>

definition and_then :: "(serial \<Rightarrow> (abnormal + 'a) \<times> serial)
                        \<Rightarrow> ('a \<Rightarrow> serial \<Rightarrow> (abnormal + 'b) \<times> serial)
                        \<Rightarrow> serial \<Rightarrow> (abnormal + 'b) \<times> serial" where
  "and_then first rest ser =
     (case first ser of
        (Inl a, ser1) \<Rightarrow> (Inl a, ser1)
      | (Inr v, ser1) \<Rightarrow> rest v ser1)"

definition sys_exit :: "int \<Rightarrow> serial \<Rightarrow> (abnormal + 'a) \<times> serial" where
  "sys_exit n ser = (Inl (Exit n), ser)"

definition proceed :: "'a \<Rightarrow> serial \<Rightarrow> (abnormal + 'a) \<times> serial" where
  "proceed v ser = (Inr v, ser)"

text \<open>The \<open>while time.time() < end\<close> loop of \<open>read_until\<close>, one equation per round.\<close>

fun poll_loop :: "string list \<Rightarrow> string \<Rightarrow> string list \<Rightarrow> bool \<times> string" where
  "poll_loop want_any_of buf [] = (False, buf)"
| "poll_loop want_any_of buf (chunk # rounds) =
     (if chunk \<noteq> [] then
        (let txt = buf @ chunk
         in if list_ex (\<lambda>w. contains txt w) want_any_of then (True, txt)
            else if contains txt ''ERROR'' then (False, txt)
            else poll_loop want_any_of txt rounds)
      else poll_loop want_any_of buf rounds)"

definition read_until :: "serial \<Rightarrow> string list \<Rightarrow> bool \<times> string \<times> serial" where
  "read_until ser want_any_of =
     (case rx ser of
        [] \<Rightarrow> (False, [], ser)
      | rounds # later \<Rightarrow>
          (let (ok, txt) = poll_loop want_any_of [] rounds
           in (ok, txt, ser\<lparr> rx := later \<rparr>)))"

text \<open>
  \<open>s.encode("ascii")\<close> raises \<open>UnicodeEncodeError\<close> unless every character of \<open>s\<close> is
  below 128. In \<open>send_at\<close> the command is encoded after the input buffer is reset and
  before anything is written.
\<close>

definition is_ascii :: "string \<Rightarrow> bool" where
  "is_ascii s = list_all (\<lambda>c. (of_char c :: nat) < 128) s"

definition send_at :: "serial \<Rightarrow> string \<Rightarrow> string \<Rightarrow> (abnormal + bool \<times> string) \<times> serial" where
  "send_at ser cmd expect =
     (let ser1 = emit [ResetInput] ser
      in if \<not> is_ascii (cmd @ [CHR 0x0D]) then (Inl (Raise UnicodeEncodeError), ser1)
         else
           (let ser2 = emit [Write (cmd @ [CHR 0x0D]), Flush] ser1;
                (ok, resp, ser3) = read_until ser2 [expect, ''ERROR'']
            in (Inr (ok \<and> contains resp expect, resp), ser3)))"

subsection \<open>\<open>handshake_and_prepare\<close>\<close>

text \<open>
  The two \<open>for ... else\<close> loops count their remaining rounds down; reaching 0 is the
  \<open>else\<close> branch, and the loop's result says whether it was left by \<open>break\<close>.
\<close>

fun at_attempts :: "(real \<Rightarrow> bool) \<Rightarrow> nat \<Rightarrow> serial \<Rightarrow> (abnormal + bool) \<times> serial" where
  "at_attempts refused 0 ser = (Inr False, ser)"
| "at_attempts refused (Suc k) ser =
     (case send_at ser ''AT'' ''OK'' of
        (Inl a, ser1) \<Rightarrow> (Inl a, ser1)
      | (Inr (ok, resp), ser1) \<Rightarrow>
          if ok then (Inr True, ser1)
          else (case time_sleep refused (Finite (1 / 2)) ser1 of
                  (Inl a, ser2) \<Rightarrow> (Inl a, ser2)
                | (Inr u, ser2) \<Rightarrow> at_attempts refused k ser2))"

fun wait_sim_ready :: "(real \<Rightarrow> bool) \<Rightarrow> nat \<Rightarrow> serial \<Rightarrow> (abnormal + bool) \<times> serial" where
  "wait_sim_ready refused 0 ser = (Inr False, ser)"
| "wait_sim_ready refused (Suc k) ser =
     (case time_sleep refused (Finite 1) ser of
        (Inl a, ser1) \<Rightarrow> (Inl a, ser1)
      | (Inr u, ser1) \<Rightarrow>
          (case send_at ser1 ''AT+CPIN?'' ''OK'' of
             (Inl a, ser2) \<Rightarrow> (Inl a, ser2)
           | (Inr (ok, resp), ser2) \<Rightarrow>
               if contains resp ''READY'' then (Inr True, ser2)
               else wait_sim_ready refused k ser2))"

definition sim_pin_handling :: "(real \<Rightarrow> bool) \<Rightarrow> serial \<Rightarrow> string \<Rightarrow> string
                                 \<Rightarrow> (abnormal + unit) \<times> serial" where
  "sim_pin_handling refused ser resp sim_pin =
     (if contains resp ''SIM PIN'' then
        (if sim_pin = [] then sys_exit 4 ser
         else
           and_then (\<lambda>s. send_at s (''AT+CPIN='' @ [CHR 0x22] @ sim_pin @ [CHR 0x22]) ''OK'')
             (\<lambda>(ok, resp1).
                if \<not> ok then sys_exit 4
                else and_then (wait_sim_ready refused 20)
                       (\<lambda>ready. if ready then proceed () else sys_exit 4)) ser)
      else proceed () ser)"

definition text_mode_setup :: "serial \<Rightarrow> (abnormal + unit) \<times> serial" where
  "text_mode_setup =
     and_then (\<lambda>s. send_at s ''AT+CREG?'' ''OK'') (\<lambda>r1.
     and_then (\<lambda>s. send_at s ''AT+COPS?'' ''OK'') (\<lambda>r2.
     and_then (\<lambda>s. send_at s ''AT+CMGF=1'' ''OK'') (\<lambda>(ok, resp).
       if \<not> ok then sys_exit 5
       else
         and_then (\<lambda>s. send_at s (''AT+CSCS='' @ [CHR 0x22] @ ''GSM'' @ [CHR 0x22]) ''OK'') (\<lambda>r4.
         and_then (\<lambda>s. send_at s ''AT+CSMP=17,167,0,0'' ''OK'') (\<lambda>r5.
         proceed ())))))"

definition handshake_and_prepare :: "(real \<Rightarrow> bool) \<Rightarrow> serial \<Rightarrow> string
                                      \<Rightarrow> (abnormal + unit) \<times> serial" where
  "handshake_and_prepare refused ser sim_pin =
     and_then (at_attempts refused 3) (\<lambda>answered.
       if \<not> answered then sys_exit 3
       else
         and_then (\<lambda>s. send_at s ''ATE0'' ''OK'') (\<lambda>r2.
         and_then (\<lambda>s. send_at s ''AT+CMEE=2'' ''OK'') (\<lambda>r3.
         and_then (\<lambda>s. send_at s ''AT+CPIN?'' ''OK'') (\<lambda>(ok, resp).
         and_then (\<lambda>s. sim_pin_handling refused s resp sim_pin) (\<lambda>u.
         text_mode_setup))))) ser"

subsection \<open>\<open>send_sms_to_number\<close>\<close>

text \<open>
  \<open>re.search(r"\+CMGS:\s*(\d+)", resp)\<close>: the leftmost place where the literal
  \<open>+CMGS:\<close>, any run of whitespace and at least one digit follow one another; the group
  is the longest run of digits there. Whitespace and digits are disjoint classes, so a
  shorter run of whitespace never makes a match possible.
\<close>

definition match_cmgs_here :: "string \<Rightarrow> string option" where
  "match_cmgs_here s =
     (if starts_with s ''+CMGS:'' then
        (let ds = takeWhile py_isdigit (dropWhile py_isspace (drop 6 s))
         in if ds = [] then None else Some ds)
      else None)"

fun search_cmgs :: "string \<Rightarrow> string option" where
  "search_cmgs [] = None"
| "search_cmgs (c # cs) =
     (case match_cmgs_here (c # cs) of
        Some ds \<Rightarrow> Some ds
      | None \<Rightarrow> search_cmgs cs)"

text \<open>\<open>s.encode("ascii", errors="replace")\<close>.\<close>

definition encode_ascii_replace :: "string \<Rightarrow> string" where
  "encode_ascii_replace s = map (\<lambda>c. if (of_char c :: nat) < 128 then c else CHR ''?'') s"

definition send_sms_to_number :: "serial \<Rightarrow> string \<Rightarrow> string
                                   \<Rightarrow> (abnormal + bool \<times> string) \<times> serial" where
  "send_sms_to_number ser number reminder_message =
     (case send_at (emit [Log (SendingTo number)] ser)
             (''AT+CMGS='' @ [CHR 0x22] @ number @ [CHR 0x22]) ''>'' of
        (Inl a, ser1) \<Rightarrow> (Inl a, ser1)
      | (Inr (ok, resp), ser1) \<Rightarrow>
          if \<not> ok then (Inr (False, resp), emit [Log (NoPrompt number resp)] ser1)
          else
            (let ser2 = emit [Write (encode_ascii_replace reminder_message),
                              Write [CHR 0x1A], Flush] ser1;
                 (ok2, resp2, ser3) = read_until ser2 [''+CMGS'', ''OK'', ''ERROR''];
                 msg_ref = (case search_cmgs resp2 of Some ds \<Rightarrow> ds | None \<Rightarrow> ''?'')
             in if contains resp2 ''+CMGS'' \<and> contains resp2 ''OK''
                then (Inr (True, resp2), emit [Log (Sent number msg_ref)] ser3)
                else (Inr (False, resp2), emit [Log (SendFailed number resp2)] ser3)))"

subsection \<open>\<open>main\<close>\<close>

text \<open>The values \<open>main\<close> reads from the configuration file.\<close>

record sms_config =
  port :: string
  baudrate :: int
  sim_pin :: string
  recipients :: "string list"
  reminder_message :: string
  delay_between_sends :: pyfloat

text \<open>
  The \<open>for i, number in enumerate(recipients, 1)\<close> loop. \<open>n\<close> is
  \<open>len(recipients)\<close>, \<open>i\<close> the running index, \<open>successes\<close> the counter. The loop returns
  the counter, unless \<open>send_sms_to_number\<close> or \<open>time.sleep\<close> raises. Besides, the model
  gives what \<open>send_sms_to_number\<close> returned for each number it returned for, in order
  (the source only counts them).
\<close>

fun send_loop :: "(real \<Rightarrow> bool) \<Rightarrow> pyfloat \<Rightarrow> string \<Rightarrow> nat \<Rightarrow> nat \<Rightarrow> string list \<Rightarrow> int \<Rightarrow> serial
                    \<Rightarrow> (abnormal + int) \<times> (bool \<times> string) list \<times> serial" where
  "send_loop refused delay_between msg n i [] successes ser = (Inr successes, [], ser)"
| "send_loop refused delay_between msg n i (number # rest) successes ser =
     (case send_sms_to_number ser number msg of
        (Inl a, ser1) \<Rightarrow> (Inl a, [], ser1)
      | (Inr (ok, resp), ser1) \<Rightarrow>
          (case (if i < n then time_sleep refused (py_max (Finite 0) delay_between) ser1
                 else (Inr (), ser1)) of
             (Inl a, ser2) \<Rightarrow> (Inl a, [(ok, resp)], ser2)
           | (Inr u, ser2) \<Rightarrow>
               (let (r, outs, ser3) =
                      send_loop refused delay_between msg n (i + 1) rest
                        (successes + (if ok then 1 else 0)) ser2
                in (r, (ok, resp) # outs, ser3))))"

definition classify :: "int \<Rightarrow> nat \<Rightarrow> int" where
  "classify successes n =
     (if successes = int n then 0
      else if successes = 0 then 8
      else 9)"

text \<open>
  \<open>open_raises\<close> says whether \<open>serial.Serial(...)\<close> raises, \<open>modem\<close> is what the modem
  delivers to the successive calls of \<open>read_until\<close>, \<open>sleep_refused\<close> which sleeps the
  platform refuses.

  A run of \<open>main\<close> ends with an exit status: the argument of the \<open>sys.exit\<close> reached or,
  when another exception leaves \<open>main\<close> (the session is wrapped with a \<open>finally\<close>
  clause and no \<open>except\<close> clause),
  the status 1 with which the interpreter ends after an uncaught exception; \<open>uncaught\<close>
  is that exception. \<open>outcomes\<close> are the per-number outcomes of the loop (none when the
  loop is not reached), \<open>line\<close> is the line with its trace. Once the port is open, the
  \<open>finally\<close> clause closes it on every way out.
\<close>

record sms_env =
  open_raises :: bool
  modem :: "string list list"
  sleep_refused :: "real \<Rightarrow> bool"

record sms_run =
  status :: int
  uncaught :: "py_exception option"
  outcomes :: "(bool \<times> string) list"
  line :: serial

definition ended :: "abnormal \<Rightarrow> (bool \<times> string) list \<Rightarrow> serial \<Rightarrow> sms_run" where
  "ended a outs ser =
     (case a of
        Exit n \<Rightarrow> \<lparr> status = n, uncaught = None, outcomes = outs, line = ser \<rparr>
      | Raise e \<Rightarrow> \<lparr> status = 1, uncaught = Some e, outcomes = outs, line = ser \<rparr>)"

definition main :: "sms_config \<Rightarrow> sms_env \<Rightarrow> sms_run" where
  "main cfg env =
     (if recipients cfg = [] then ended (Exit 2) [] \<lparr> rx = modem env, trace = [] \<rparr>
      else if reminder_message cfg = [] then ended (Exit 2) [] \<lparr> rx = modem env, trace = [] \<rparr>
      else if open_raises env then ended (Exit 2) [] \<lparr> rx = modem env, trace = [] \<rparr>
      else
        (case handshake_and_prepare (sleep_refused env) \<lparr> rx = modem env, trace = [] \<rparr>
                (sim_pin cfg) of
           (Inl a, ser1) \<Rightarrow> ended a [] (emit [Close] ser1)
         | (Inr u, ser1) \<Rightarrow>
             (case send_loop (sleep_refused env) (delay_between_sends cfg) (reminder_message cfg)
                     (length (recipients cfg)) 1 (recipients cfg) 0 ser1 of
                (Inl a, outs, ser2) \<Rightarrow> ended a outs (emit [Close] ser2)
              | (Inr successes, outs, ser2) \<Rightarrow>
                  ended (Exit (classify successes (length (recipients cfg)))) outs
                    (emit [Close] ser2))))"


section \<open>Notions used to state the properties\<close>

subsection \<open>Executor\<close>

text \<open>
  The arguments and the timeout a call works with: \<open>args or {}\<close>, and
  \<open>timeout if timeout is not None else cmd_def.timeout_default\<close>.
\<close>

definition given_args :: "args option \<Rightarrow> args" where
  "given_args ao = (case ao of None \<Rightarrow> [] | Some a \<Rightarrow> a)"

definition requested_timeout :: "CommandDefinition \<Rightarrow> int option \<Rightarrow> int" where
  "requested_timeout cd tmo = (case tmo of Some t \<Rightarrow> t | None \<Rightarrow> timeout_default cd)"

text \<open>
  The specification's clamp, \<open>clamp(x, lo, hi)\<close>, written from its words: \<open>x\<close> brought
  up to \<open>lo\<close> and down to \<open>hi\<close>.
\<close>

definition spec_clamp :: "int \<Rightarrow> int \<Rightarrow> int \<Rightarrow> int" where
  "spec_clamp x lo hi = max lo (min x hi)"

text \<open>
  A call whose child exceeds the effective timeout: the command resolves, its arguments
  pass, the spawn succeeds and the bounded wait ends in \<open>asyncio.TimeoutError\<close>.
\<close>

definition times_out ::
  "settings \<Rightarrow> registry \<Rightarrow> exec_env \<Rightarrow> string \<Rightarrow> args option \<Rightarrow> int option \<Rightarrow> bool" where
  "times_out st reg env nm ao tmo =
     (case get_command reg nm of
        None \<Rightarrow> False
      | Some cd \<Rightarrow>
          validate_args cd (given_args ao)
          \<and> spawn_raises env (build_command env cd (given_args ao)) = None
          \<and> communicate env (build_command env cd (given_args ao))
                (validate_timeout st (requested_timeout cd tmo)) = TimeoutError)"

text \<open>The command vectors spawned in a list of effects.\<close>

definition spawns :: "exec_event list \<Rightarrow> string list list" where
  "spawns evs = concat (map (\<lambda>e. case e of Spawn c \<Rightarrow> [c] | _ \<Rightarrow> []) evs)"

text \<open>
  Two operating systems for the examples: one whose child never finishes in time, and the
  same one where the child is gone by the time \<open>process.kill()\<close> is called.
\<close>

definition env_timeout :: exec_env where
  "env_timeout =
     \<lparr> sys_executable = ''/usr/bin/python3'', now_started = 0, now_completed = 60000000,
       spawn_raises = (\<lambda>cmd. None), communicate = (\<lambda>cmd t. TimeoutError),
       kill_raises = False \<rparr>"

definition env_child_gone :: exec_env where
  "env_child_gone = env_timeout \<lparr> kill_raises := True \<rparr>"


subsection \<open>Monitor\<close>

text \<open>
  The number of iterations at the end of a list whose primary ping failed, counted back
  from the last one up to the most recent success.
\<close>

definition trailing_failures :: "tick_input list \<Rightarrow> nat" where
  "trailing_failures inps =
     length (takeWhile (\<lambda>inp. \<not> run_ping (primary inp)) (rev inps))"

text \<open>
  Three iterations for the examples: the primary target does not answer but the router
  does; neither answers (the router ping cannot even be started); the primary target
  answers. \<open>four_failures\<close> is four failed iterations, \<open>outage_and_recovery\<close> is four
  failed iterations followed by a good one.
\<close>

definition ping_fails :: tick_input where
  "ping_fails = \<lparr> primary = Returncode 1, router = Returncode 0,
                  monotonic_first = 1000, monotonic_after_reminder = 1010 \<rparr>"

definition all_dark :: tick_input where
  "all_dark = \<lparr> primary = Returncode 1, router = PingRaised,
                monotonic_first = 1000, monotonic_after_reminder = 1010 \<rparr>"

definition ping_answers :: tick_input where
  "ping_answers = \<lparr> primary = Returncode 0, router = Returncode 0,
                    monotonic_first = 2000, monotonic_after_reminder = 2010 \<rparr>"

definition four_failures :: "tick_input list" where
  "four_failures = [ping_fails, ping_fails, ping_fails, ping_fails]"

definition outage_and_recovery :: "tick_input list" where
  "outage_and_recovery = [ping_fails, ping_fails, ping_fails, ping_fails, ping_answers]"


subsection \<open>SMS sender\<close>




text \<open>
  A duration \<open>time.sleep\<close> accepts on a platform with the given \<open>refused\<close>, and the
  seconds of a finite float. \<open>pause d\<close> is the argument \<open>max(0.0, d)\<close> of the sleep
  between two sends. \<open>no_refusal\<close> is a platform that refuses no duration.
\<close>

definition sleep_accepts :: "(real \<Rightarrow> bool) \<Rightarrow> pyfloat \<Rightarrow> bool" where
  "sleep_accepts refused secs =
     (case secs of Finite x \<Rightarrow> 0 \<le> x \<and> x < sleep_limit \<and> \<not> refused x | _ \<Rightarrow> False)"

definition no_refusal :: "real \<Rightarrow> bool" where
  "no_refusal x = False"


definition pause :: "pyfloat \<Rightarrow> pyfloat" where
  "pause d = py_max (Finite 0) d"





text \<open>
  Modems for the examples. \<open>modem_setup\<close> answers the nine commands of a handshake without
  PIN; \<open>modem_accepts\<close> gives the prompt and then \<open>+CMGS: 42\<close> and \<open>OK\<close> in one chunk;
  \<open>modem_no_prompt\<close> stays silent for a whole prompt wait; \<open>modem_split_ack\<close> gives the
  prompt, then \<open>+CMGS: 42\<close> in one polling round and \<open>OK\<close> in the next. \<open>modem_locked\<close>
  answers the SIM status query with a request for the PIN; \<open>modem_no_text_mode\<close> refuses
  \<open>AT+CMGF=1\<close>.
\<close>

definition crlf :: string where
  "crlf = [CHR 0x0D, CHR 0x0A]"

definition modem_setup :: "string list list" where
  "modem_setup =
     [ [''OK''], [''OK''], [''OK''], [''+CPIN: READY'' @ crlf @ ''OK''],
       [''+CREG: 0,1'' @ crlf @ ''OK''], [''+COPS: 0'' @ crlf @ ''OK''],
       [''OK''], [''OK''], [''OK''] ]"



definition modem_accepts :: "string list list" where
  "modem_accepts =
     [ [ [], ''> '' ], [ [], crlf @ ''+CMGS: 42'' @ crlf @ crlf @ ''OK'' @ crlf ] ]"

definition modem_no_prompt :: "string list list" where
  "modem_no_prompt = [ [ [], [], [] ] ]"

definition modem_split_ack :: "string list list" where
  "modem_split_ack = [ [ ''> '' ], [ crlf @ ''+CMGS: 42'' @ crlf, crlf @ ''OK'' @ crlf ] ]"

text \<open>
  Configurations for the examples: one, two or three recipients with a pause of 2
  seconds; two recipients with a pause of \<open>10^10\<close> seconds; two recipients, the second
  with a no-break space (character 160) in its number. The environments pair a modem with
  a platform that refuses no sleep.
\<close>

definition one_recipient :: sms_config where
  "one_recipient =
     \<lparr> port = ''/dev/ttyUSB2'', baudrate = 115200, sim_pin = [],
       recipients = [''+4911111''],
       reminder_message = ''Power is still out'', delay_between_sends = Finite 2 \<rparr>"


definition three_recipients :: sms_config where
  "three_recipients =
     \<lparr> port = ''/dev/ttyUSB2'', baudrate = 115200, sim_pin = [],
       recipients = [''+4911111'', ''+4922222'', ''+4933333''],
       reminder_message = ''Power is still out'', delay_between_sends = Finite 2 \<rparr>"





definition all_accept :: sms_env where
  "all_accept =
     \<lparr> open_raises = False, modem = modem_setup @ modem_accepts @ modem_accepts,
       sleep_refused = no_refusal \<rparr>"


definition second_silent :: sms_env where
  "second_silent =
     \<lparr> open_raises = False,
       modem = modem_setup @ modem_accepts @ modem_no_prompt @ modem_accepts,
       sleep_refused = no_refusal \<rparr>"

definition split_ack :: sms_env where
  "split_ack =
     \<lparr> open_raises = False, modem = modem_setup @ modem_split_ack,
       sleep_refused = no_refusal \<rparr>"




definition line_accepts :: serial where
  "line_accepts = \<lparr> rx = modem_accepts, trace = [] \<rparr>"


definition line_split_ack :: serial where
  "line_split_ack = \<lparr> rx = modem_split_ack, trace = [] \<rparr>"



text \<open>
  \<open>leaves_by A r\<close>: the call with result \<open>r\<close> returned, or it was left by one of the
  exits and exceptions in \<open>A\<close>.
\<close>

definition leaves_by :: "abnormal set \<Rightarrow> (abnormal + 'a) \<times> serial \<Rightarrow> bool" where
  "leaves_by A r = (case fst r of Inl a \<Rightarrow> a \<in> A | Inr v \<Rightarrow> True)"


section \<open>Properties of the executor\<close>

subsection \<open>The registry and the three ways through \<open>execute_command\<close>\<close>

lemma registry_send_clear:
  "get_command (initialize_commands d) ''send_clear'' =
     Some \<lparr> name = ''send_clear'', script_path = d @ ''/send_clear_sms.py'',
            description = ''Send clear/recovery SMS notification'',
            timeout_default = 60, args_schema = [] \<rparr>"
  by (simp add: get_command_def initialize_commands_def whitelist_def)

lemma registry_reboot: "get_command (initialize_commands d) ''reboot'' = None"
  by (simp add: get_command_def initialize_commands_def whitelist_def)

lemma execute_unknown:
  assumes "get_command reg nm = None"
  shows "execute_command st reg env nm ao tmo =
           (\<lparr> success = False, stdout = [], stderr = [], exit_code = - 1, duration_ms = 0,
              started_at = now_started env, completed_at = now_started env,
              error_message = Some (''Command '' @ [CHR 0x27] @ nm @ [CHR 0x27]
                                    @ '' not found in registry'') \<rparr>, [])"
  using assms by (simp add: execute_command_def)

lemma execute_rejected:
  assumes "get_command reg nm = Some cd" and "\<not> validate_args cd (given_args ao)"
  shows "execute_command st reg env nm ao tmo =
           (\<lparr> success = False, stdout = [], stderr = [], exit_code = - 1, duration_ms = 0,
              started_at = now_started env, completed_at = now_started env,
              error_message = Some (''Invalid arguments for command '' @ [CHR 0x27] @ nm
                                    @ [CHR 0x27]) \<rparr>, [])"
  using assms
  by (simp add: execute_command_def validate_command_args_def given_args_def)

lemma execute_resolved:
  assumes "get_command reg nm = Some cd" and "validate_args cd (given_args ao)"
  shows "execute_command st reg env nm ao tmo =
           (fst (run_child env (build_command env cd (given_args ao))
                   (validate_timeout st (requested_timeout cd tmo))),
            [GateAcquire]
            @ snd (run_child env (build_command env cd (given_args ao))
                     (validate_timeout st (requested_timeout cd tmo)))
            @ [GateRelease])"
  using assms
  by (simp add: execute_command_def validate_command_args_def given_args_def
      requested_timeout_def split: prod.splits)

subsection \<open>What the child's life looks like\<close>

lemma run_child_waits: "WaitFor u \<in> set (snd (run_child env c t)) \<Longrightarrow> u = t"
  by (auto simp: run_child_def kill_on_timeout_def
      split: option.splits comm_outcome.splits if_splits)

lemma run_child_waits_spawned:
  "spawn_raises env c = None \<Longrightarrow> WaitFor t \<in> set (snd (run_child env c t))"
  by (auto simp: run_child_def kill_on_timeout_def split: option.splits comm_outcome.splits)

lemma run_child_kill:
  "Kill \<in> set (snd (run_child env c t)) \<Longrightarrow>
     spawn_raises env c = None \<and> communicate env c t = TimeoutError"
  by (auto simp: run_child_def kill_on_timeout_def
      split: option.splits comm_outcome.splits if_splits)

lemma run_child_spawns: "spawns (snd (run_child env c t)) = [c]"
  by (auto simp: run_child_def kill_on_timeout_def spawns_def
      split: option.splits comm_outcome.splits)

lemma run_child_kills: "length (filter (\<lambda>e. e = Kill) (snd (run_child env c t))) \<le> 1"
  by (auto simp: run_child_def kill_on_timeout_def split: option.splits comm_outcome.splits)

lemma run_child_timeout:
  assumes "spawn_raises env c = None" and "communicate env c t = TimeoutError"
  shows "run_child env c t =
           (\<lparr> success = False, stdout = [], stderr = [], exit_code = - 1,
              duration_ms = duration_of (now_started env) (now_completed env),
              started_at = now_started env, completed_at = now_completed env,
              error_message = Some (''Command exceeded timeout of '' @ str_int t @ ''s'') \<rparr>,
            [Spawn c, WaitFor t] @ kill_on_timeout env)"
  using assms by (simp add: run_child_def)

lemma validate_timeout_cases:
  "validate_timeout st r = (if r < 1 then DEFAULT_TIMEOUT st else min r (MAX_TIMEOUT st))"
  by (simp add: validate_timeout_def min_def)

lemma times_out_send_clear:
  "times_out (default_settings ''/opt/gw'') (initialize_commands ''/opt/gw'') env_timeout
     ''send_clear'' None None"
  by (simp add: times_out_def registry_send_clear validate_args_def given_args_def
      env_timeout_def)

subsection \<open>C1: the effective timeout\<close>

text \<open>
  C1, as stated, fails. The claim puts the effective timeout at
  \<open>clamp(override or default, 1, MAX_TIMEOUT)\<close>, so that an override of 0 gives 1. With the
  default settings and the registered command \<open>send_clear\<close>, a call with the override 0
  waits for 30 seconds, which is \<open>DEFAULT_TIMEOUT\<close>: \<open>_validate_timeout\<close> answers a
  request below 1 with the default timeout, not with 1.
\<close>

theorem override_zero_waits_default:
  "WaitFor (spec_clamp 0 1 (MAX_TIMEOUT (default_settings ''/opt/gw'')))
     \<notin> set (snd (execute_command (default_settings ''/opt/gw'')
                   (initialize_commands ''/opt/gw'') env_timeout ''send_clear'' None (Some 0)))
   \<and> WaitFor 30
     \<in> set (snd (execute_command (default_settings ''/opt/gw'')
                   (initialize_commands ''/opt/gw'') env_timeout ''send_clear'' None (Some 0)))"
  by (simp add: execute_command_def registry_send_clear validate_command_args_def
      validate_args_def validate_timeout_def default_settings_def run_child_def
      env_timeout_def spec_clamp_def build_command_def kill_on_timeout_def)

text \<open>
  C1, amended. For a call whose command resolves and whose arguments pass, let \<open>r\<close> be
  the override if one is given and the command's default timeout otherwise. Every bounded
  wait of the call is given \<open>DEFAULT_TIMEOUT\<close> when \<open>r < 1\<close>, and the smaller of \<open>r\<close> and
  \<open>MAX_TIMEOUT\<close> when \<open>r \<ge> 1\<close>; when the spawn succeeds there is such a wait. For
  \<open>r \<ge> 1\<close> (and \<open>MAX_TIMEOUT \<ge> 1\<close>) this is the specification's clamp.
\<close>

theorem effective_timeout_by_cases:
  assumes "get_command reg nm = Some cd" and "validate_args cd (given_args ao)"
  shows "(\<forall>u. WaitFor u \<in> set (snd (execute_command st reg env nm ao tmo)) \<longrightarrow>
            u = (if requested_timeout cd tmo < 1 then DEFAULT_TIMEOUT st
                 else min (requested_timeout cd tmo) (MAX_TIMEOUT st)))
       \<and> (spawn_raises env (build_command env cd (given_args ao)) = None \<longrightarrow>
            WaitFor (if requested_timeout cd tmo < 1 then DEFAULT_TIMEOUT st
                     else min (requested_timeout cd tmo) (MAX_TIMEOUT st))
              \<in> set (snd (execute_command st reg env nm ao tmo)))
       \<and> (1 \<le> requested_timeout cd tmo \<and> 1 \<le> MAX_TIMEOUT st \<longrightarrow>
            validate_timeout st (requested_timeout cd tmo)
              = spec_clamp (requested_timeout cd tmo) 1 (MAX_TIMEOUT st))"
proof -
  let ?t = "validate_timeout st (requested_timeout cd tmo)"
  let ?c = "build_command env cd (given_args ao)"
  have ev: "snd (execute_command st reg env nm ao tmo)
              = [GateAcquire] @ snd (run_child env ?c ?t) @ [GateRelease]"
    by (simp add: execute_resolved [OF assms])
  have a: "\<forall>u. WaitFor u \<in> set (snd (execute_command st reg env nm ao tmo)) \<longrightarrow> u = ?t"
    using run_child_waits [of _ env ?c ?t] by (auto simp: ev)
  have b: "spawn_raises env ?c = None \<longrightarrow>
             WaitFor ?t \<in> set (snd (execute_command st reg env nm ao tmo))"
    using run_child_waits_spawned [of env ?c ?t] by (simp add: ev)
  have c: "1 \<le> requested_timeout cd tmo \<and> 1 \<le> MAX_TIMEOUT st \<longrightarrow>
             ?t = spec_clamp (requested_timeout cd tmo) 1 (MAX_TIMEOUT st)"
    by (auto simp: validate_timeout_def spec_clamp_def)
  show ?thesis
    using a b c by (simp only: validate_timeout_cases [symmetric])
qed

text \<open>
  The amended C1 at work: \<open>send_clear\<close> with the override 0 waits for 30 seconds and
  not for 1; a request of 500 is cut to 120, as the clamp would.
\<close>

theorem effective_timeout_by_cases_witness:
  "get_command (initialize_commands ''/opt/gw'') ''send_clear'' \<noteq> None
   \<and> WaitFor 30 \<in> set (snd (execute_command (default_settings ''/opt/gw'')
        (initialize_commands ''/opt/gw'') env_timeout ''send_clear'' None (Some 0)))
   \<and> WaitFor 1 \<notin> set (snd (execute_command (default_settings ''/opt/gw'')
        (initialize_commands ''/opt/gw'') env_timeout ''send_clear'' None (Some 0)))
   \<and> validate_timeout (default_settings ''/opt/gw'') 500 = spec_clamp 500 1 120"
proof -
  have valid: "validate_args \<lparr> name = ''send_clear'',
      script_path = ''/opt/gw'' @ ''/send_clear_sms.py'',
      description = ''Send clear/recovery SMS notification'',
      timeout_default = 60, args_schema = [] \<rparr> (given_args None)"
    by (simp add: validate_args_def given_args_def)
  note zero = effective_timeout_by_cases [OF registry_send_clear valid,
      where st = "default_settings ''/opt/gw''" and env = env_timeout and tmo = "Some 0"]
  note big = effective_timeout_by_cases [OF registry_send_clear valid,
      where st = "default_settings ''/opt/gw''" and env = env_timeout and tmo = "Some 500"]
  have a: "WaitFor 30 \<in> set (snd (execute_command (default_settings ''/opt/gw'')
        (initialize_commands ''/opt/gw'') env_timeout ''send_clear'' None (Some 0)))"
    using zero [THEN conjunct2, THEN conjunct1]
    by (simp add: requested_timeout_def default_settings_def env_timeout_def)
  have b: "WaitFor 1 \<notin> set (snd (execute_command (default_settings ''/opt/gw'')
        (initialize_commands ''/opt/gw'') env_timeout ''send_clear'' None (Some 0)))"
    using zero [THEN conjunct1, THEN spec, of 1]
    by (simp add: requested_timeout_def default_settings_def)
  have c: "validate_timeout (default_settings ''/opt/gw'') 500 = spec_clamp 500 1 120"
    using big [THEN conjunct2, THEN conjunct2]
    by (simp add: requested_timeout_def default_settings_def)
  show ?thesis using a b c by (simp add: registry_send_clear)
qed

subsection \<open>C5: the timeout path\<close>

text \<open>
  C5, as stated, fails in one point: the teardown is not always awaited. \<open>process.kill()\<close>
  and \<open>await process.wait()\<close> are guarded together; when the kill raises (the child is
  already gone), the handler logs and the wait is skipped. Here the child of \<open>send_clear\<close>
  exceeds its timeout and no teardown is awaited.
\<close>

theorem kill_raises_skips_teardown:
  "times_out (default_settings ''/opt/gw'') (initialize_commands ''/opt/gw'') env_child_gone
     ''send_clear'' None None
   \<and> AwaitTeardown \<notin> set (snd (execute_command (default_settings ''/opt/gw'')
        (initialize_commands ''/opt/gw'') env_child_gone ''send_clear'' None None))"
  by (simp add: times_out_def given_args_def requested_timeout_def build_command_def
      execute_command_def registry_send_clear validate_command_args_def validate_args_def
      run_child_def env_child_gone_def env_timeout_def kill_on_timeout_def Let_def)

text \<open>
  C5, amended. When the child exceeds the effective timeout \<open>t\<close>, the call spawns it
  once, waits \<open>t\<close>, calls \<open>process.kill()\<close> and, unless that call raises, awaits the
  teardown; either way it releases the gate and returns \<open>success = False\<close>,
  \<open>exit_code = -1\<close> and the message \<open>Command exceeded timeout of <t>s\<close>. No other path
  kills: a call whose effects contain a kill is one whose child exceeded the timeout. No
  call spawns or kills more than once, so nothing is retried.
\<close>

theorem timeout_kills_child_once:
  "(times_out st reg env nm ao tmo \<longrightarrow>
      (\<exists>cd. get_command reg nm = Some cd
         \<and> success (fst (execute_command st reg env nm ao tmo)) = False
         \<and> exit_code (fst (execute_command st reg env nm ao tmo)) = - 1
         \<and> error_message (fst (execute_command st reg env nm ao tmo))
             = Some (''Command exceeded timeout of ''
                     @ str_int (validate_timeout st (requested_timeout cd tmo)) @ ''s'')
         \<and> snd (execute_command st reg env nm ao tmo)
             = [GateAcquire, Spawn (build_command env cd (given_args ao)),
                WaitFor (validate_timeout st (requested_timeout cd tmo)), Kill]
               @ (if kill_raises env then [] else [AwaitTeardown]) @ [GateRelease]))
   \<and> (Kill \<in> set (snd (execute_command st reg env nm ao tmo)) \<longrightarrow>
        times_out st reg env nm ao tmo)
   \<and> length (spawns (snd (execute_command st reg env nm ao tmo))) \<le> 1
   \<and> length (filter (\<lambda>e. e = Kill) (snd (execute_command st reg env nm ao tmo))) \<le> 1"
proof (cases "get_command reg nm")
  case None
  then show ?thesis
    by (simp add: execute_unknown times_out_def spawns_def)
next
  case (Some cd)
  show ?thesis
  proof (cases "validate_args cd (given_args ao)")
    case False
    then show ?thesis
      using Some by (simp add: execute_rejected times_out_def spawns_def)
  next
    case True
    let ?t = "validate_timeout st (requested_timeout cd tmo)"
    let ?c = "build_command env cd (given_args ao)"
    note ex = execute_resolved [OF Some True, of st env tmo]
    have a: "times_out st reg env nm ao tmo \<longrightarrow>
               fst (execute_command st reg env nm ao tmo)
                 = \<lparr> success = False, stdout = [], stderr = [], exit_code = - 1,
                     duration_ms = duration_of (now_started env) (now_completed env),
                     started_at = now_started env, completed_at = now_completed env,
                     error_message =
                       Some (''Command exceeded timeout of '' @ str_int ?t @ ''s'') \<rparr>
               \<and> snd (execute_command st reg env nm ao tmo)
                 = [GateAcquire, Spawn ?c, WaitFor ?t, Kill]
                   @ (if kill_raises env then [] else [AwaitTeardown]) @ [GateRelease]"
      using Some True
      by (auto simp: ex times_out_def run_child_timeout kill_on_timeout_def)
    have b: "Kill \<in> set (snd (execute_command st reg env nm ao tmo)) \<longrightarrow>
               times_out st reg env nm ao tmo"
      using run_child_kill [of env ?c ?t] Some True
      by (auto simp: ex times_out_def)
    have c: "length (spawns (snd (execute_command st reg env nm ao tmo))) \<le> 1"
      using run_child_spawns [of env ?c ?t] by (simp add: ex spawns_def)
    have d: "length (filter (\<lambda>e. e = Kill) (snd (execute_command st reg env nm ao tmo))) \<le> 1"
      using run_child_kills [of env ?c ?t] by (simp add: ex)
    from a b c d Some show ?thesis by auto
  qed
qed

text \<open>
  The amended C5 at work, on the specification's example: \<open>send_clear\<close> has the default
  timeout 60, its child does not finish, and the call kills it after 60 seconds.
\<close>

theorem timeout_kills_child_once_witness:
  "times_out (default_settings ''/opt/gw'') (initialize_commands ''/opt/gw'') env_timeout
     ''send_clear'' None None
   \<and> exit_code (fst (execute_command (default_settings ''/opt/gw'')
        (initialize_commands ''/opt/gw'') env_timeout ''send_clear'' None None)) = - 1
   \<and> error_message (fst (execute_command (default_settings ''/opt/gw'')
        (initialize_commands ''/opt/gw'') env_timeout ''send_clear'' None None))
       = Some ''Command exceeded timeout of 60s''
   \<and> snd (execute_command (default_settings ''/opt/gw'')
        (initialize_commands ''/opt/gw'') env_timeout ''send_clear'' None None)
       = [GateAcquire, Spawn [''/usr/bin/python3'', ''/opt/gw/send_clear_sms.py''],
          WaitFor 60, Kill, AwaitTeardown, GateRelease]"
  using timeout_kills_child_once [of "default_settings ''/opt/gw''"
      "initialize_commands ''/opt/gw''" env_timeout "''send_clear''" None None]
    times_out_send_clear
  by (simp add: registry_send_clear requested_timeout_def validate_timeout_def
      default_settings_def str_int_def str_nat.simps digit_char_def build_command_def
      given_args_def env_timeout_def)

subsection \<open>C6: rejection before any process exists\<close>

text \<open>
  C6. A call with a command name that the registry does not hold returns a failure whose
  message is \<open>Command '<name>' not found in registry\<close>, and has no effect at all: no gate,
  no spawn. A call whose arguments fail the command's schema returns a failure with the
  message \<open>Invalid arguments for command '<name>'\<close>, again without any effect.
\<close>

theorem rejected_before_spawn:
  "(get_command reg nm = None \<longrightarrow>
      execute_command st reg env nm ao tmo =
        (\<lparr> success = False, stdout = [], stderr = [], exit_code = - 1, duration_ms = 0,
           started_at = now_started env, completed_at = now_started env,
           error_message = Some (''Command '' @ [CHR 0x27] @ nm @ [CHR 0x27]
                                 @ '' not found in registry'') \<rparr>, []))
   \<and> (\<forall>cd. get_command reg nm = Some cd \<and> \<not> validate_args cd (given_args ao) \<longrightarrow>
        success (fst (execute_command st reg env nm ao tmo)) = False
        \<and> error_message (fst (execute_command st reg env nm ao tmo))
            = Some (''Invalid arguments for command '' @ [CHR 0x27] @ nm @ [CHR 0x27])
        \<and> snd (execute_command st reg env nm ao tmo) = [])"
  by (simp add: execute_unknown execute_rejected)

text \<open>
  C6 at work: \<open>reboot\<close> is not in the whitelist; \<open>send_clear\<close> takes no arguments, so
  a call that passes one is rejected.
\<close>

theorem rejected_before_spawn_witness:
  "get_command (initialize_commands ''/opt/gw'') ''reboot'' = None
   \<and> error_message (fst (execute_command (default_settings ''/opt/gw'')
          (initialize_commands ''/opt/gw'') env_timeout ''reboot'' None None))
       = Some (''Command '' @ [CHR 0x27] @ ''reboot'' @ [CHR 0x27] @ '' not found in registry'')
   \<and> snd (execute_command (default_settings ''/opt/gw'')
          (initialize_commands ''/opt/gw'') env_timeout ''reboot'' None None) = []
   \<and> \<not> validate_args \<lparr> name = ''send_clear'', script_path = ''/opt/gw'' @ ''/send_clear_sms.py'',
         description = ''Send clear/recovery SMS notification'',
         timeout_default = 60, args_schema = [] \<rparr> (given_args (Some [(''to'', VStr ''x'')]))
   \<and> snd (execute_command (default_settings ''/opt/gw'')
          (initialize_commands ''/opt/gw'') env_timeout ''send_clear''
          (Some [(''to'', VStr ''x'')]) None) = []"
  using rejected_before_spawn [of "initialize_commands ''/opt/gw''" "''reboot''"
      "default_settings ''/opt/gw''" env_timeout None None]
    rejected_before_spawn [of "initialize_commands ''/opt/gw''" "''send_clear''"
      "default_settings ''/opt/gw''" env_timeout "Some [(''to'', VStr ''x'')]" None]
  by (simp add: registry_reboot registry_send_clear validate_args_def given_args_def)


section \<open>Properties of the monitor\<close>

subsection \<open>One iteration\<close>

lemma tick_reachable:
  "run_ping (primary inp) \<Longrightarrow>
     tick cfg inp s =
       (if in_outage s
        then (s\<lparr> in_outage := False, failure_streak := 0 \<rparr>,
              [Ping (internet_ip cfg) (ping_count cfg), RunScript (clear_script cfg),
               SleepInterval (check_interval_seconds cfg)])
        else (s\<lparr> failure_streak := 0 \<rparr>,
              [Ping (internet_ip cfg) (ping_count cfg),
               SleepInterval (check_interval_seconds cfg)]))"
  by (simp add: tick_def Let_def)

lemma tick_outage_flag:
  "in_outage (fst (tick cfg inp s)) =
     (if run_ping (primary inp) then False
      else in_outage s \<or> failure_streak s + 1 \<ge> failure_threshold cfg)"
  by (auto simp: tick_def Let_def)

lemma tick_streak:
  "failure_streak (fst (tick cfg inp s)) =
     (if run_ping (primary inp) then 0 else failure_streak s + 1)"
  by (auto simp: tick_def Let_def)

lemma tick_transitions:
  "(\<not> in_outage s \<and> in_outage (fst (tick cfg inp s)) \<longrightarrow>
      \<not> run_ping (primary inp)
      \<and> failure_streak (fst (tick cfg inp s)) \<ge> failure_threshold cfg)
   \<and> (in_outage s \<and> \<not> in_outage (fst (tick cfg inp s)) \<longrightarrow> run_ping (primary inp))"
  by (auto simp: tick_outage_flag tick_streak)

lemma monitor_events_nth:
  "i < length inps \<Longrightarrow>
     monitor_events cfg inps s ! i
       = snd (tick cfg (inps ! i) (monitor_states cfg inps s ! i))"
proof (induction inps arbitrary: s i)
  case Nil
  then show ?case by simp
next
  case (Cons inp inps)
  show ?case
  proof (cases i)
    case 0
    then show ?thesis by simp
  next
    case (Suc j)
    then show ?thesis using Cons by simp
  qed
qed

text \<open>
  The streak is what its name says: after a run from the initial state, it is the number
  of failed primary pings since the last good one.
\<close>

lemma monitor_states_nonempty: "monitor_states cfg inps s \<noteq> []"
  by (cases inps) simp_all

lemma trailing_failures_snoc:
  "trailing_failures (xs @ [x])
     = (if run_ping (primary x) then 0 else Suc (trailing_failures xs))"
  by (simp add: trailing_failures_def)

lemma monitor_states_snoc:
  "last (monitor_states cfg (xs @ [x]) s) = fst (tick cfg x (last (monitor_states cfg xs s)))"
  by (induction xs arbitrary: s) (simp_all add: monitor_states_nonempty)

lemma streak_counts_failures:
  "failure_streak (last (monitor_states cfg inps s)) =
     (if trailing_failures inps = length inps then failure_streak s + int (length inps)
      else int (trailing_failures inps))"
proof (induction inps rule: rev_induct)
  case Nil
  show ?case by (simp add: trailing_failures_def)
next
  case (snoc x xs)
  show ?case
    using snoc
    by (simp add: monitor_states_snoc trailing_failures_snoc tick_streak)
qed

lemma streak_from_start:
  "failure_streak (last (monitor_states cfg inps initial_state)) = int (trailing_failures inps)"
  by (simp add: streak_counts_failures initial_state_def)

lemma three_failures:
  "monitor_states DEFAULTS four_failures initial_state ! 3
     = \<lparr> failure_streak = 3, in_outage = False, last_reminder_monotonic = 0 \<rparr>"
  by (simp add: four_failures_def tick_def Let_def run_ping_def DEFAULTS_def ping_fails_def
      initial_state_def)

lemma fourth_iteration:
  "monitor_events DEFAULTS four_failures initial_state ! 3
     = snd (tick DEFAULTS ping_fails (monitor_states DEFAULTS four_failures initial_state ! 3))"
  using monitor_events_nth [of 3 four_failures DEFAULTS initial_state]
  by (simp add: four_failures_def)

subsection \<open>C3: when the outage flag changes\<close>

text \<open>
  C3. Run the loop over any list of iterations, from any state. Whenever the outage flag
  is off before an iteration and on after it, the primary ping of that iteration failed
  and the failure streak it left is at least the threshold. Whenever the flag is on before
  an iteration and off after it, the primary ping of that iteration succeeded.
\<close>

theorem outage_flag_transitions:
  "\<forall>i < length inps.
     (\<not> in_outage (monitor_states cfg inps s0 ! i)
        \<and> in_outage (monitor_states cfg inps s0 ! Suc i) \<longrightarrow>
          \<not> run_ping (primary (inps ! i))
          \<and> failure_streak (monitor_states cfg inps s0 ! Suc i) \<ge> failure_threshold cfg)
     \<and> (in_outage (monitor_states cfg inps s0 ! i)
        \<and> \<not> in_outage (monitor_states cfg inps s0 ! Suc i) \<longrightarrow>
          run_ping (primary (inps ! i)))"
proof (induction inps arbitrary: s0)
  case Nil
  show ?case by simp
next
  case (Cons inp inps)
  show ?case
  proof (intro allI impI)
    fix i
    assume i: "i < length (inp # inps)"
    show "(\<not> in_outage (monitor_states cfg (inp # inps) s0 ! i)
        \<and> in_outage (monitor_states cfg (inp # inps) s0 ! Suc i) \<longrightarrow>
          \<not> run_ping (primary ((inp # inps) ! i))
          \<and> failure_streak (monitor_states cfg (inp # inps) s0 ! Suc i)
              \<ge> failure_threshold cfg)
     \<and> (in_outage (monitor_states cfg (inp # inps) s0 ! i)
        \<and> \<not> in_outage (monitor_states cfg (inp # inps) s0 ! Suc i) \<longrightarrow>
          run_ping (primary ((inp # inps) ! i)))"
    proof (cases i)
      case 0
      have first: "monitor_states cfg inps (fst (tick cfg inp s0)) ! 0 = fst (tick cfg inp s0)"
        by (cases inps) simp_all
      show ?thesis
        using tick_transitions [of s0 cfg inp] by (simp add: 0 first)
    next
      case (Suc j)
      then have "j < length inps" using i by simp
      then show ?thesis
        using Cons.IH [of "fst (tick cfg inp s0)"] by (simp add: Suc)
    qed
  qed
qed

text \<open>
  C3 at work, with the default threshold 4: after three failed iterations the flag is
  still off, the fourth turns it on with a streak of 4, the good iteration turns it off.
\<close>

theorem outage_flag_transitions_witness:
  "\<not> in_outage (monitor_states DEFAULTS outage_and_recovery initial_state ! 3)
   \<and> in_outage (monitor_states DEFAULTS outage_and_recovery initial_state ! 4)
   \<and> \<not> run_ping (primary (outage_and_recovery ! 3))
   \<and> failure_threshold DEFAULTS
       \<le> failure_streak (monitor_states DEFAULTS outage_and_recovery initial_state ! 4)
   \<and> \<not> in_outage (monitor_states DEFAULTS outage_and_recovery initial_state ! 5)
   \<and> run_ping (primary (outage_and_recovery ! 4))"
proof -
  have off: "\<not> in_outage (monitor_states DEFAULTS outage_and_recovery initial_state ! 3)"
    by (simp add: outage_and_recovery_def tick_def Let_def run_ping_def DEFAULTS_def
        ping_fails_def initial_state_def)
  have on: "in_outage (monitor_states DEFAULTS outage_and_recovery initial_state ! 4)"
    by (simp add: outage_and_recovery_def tick_def Let_def run_ping_def DEFAULTS_def
        ping_fails_def initial_state_def)
  have off_again: "\<not> in_outage (monitor_states DEFAULTS outage_and_recovery initial_state ! 5)"
    by (simp add: outage_and_recovery_def tick_def Let_def run_ping_def DEFAULTS_def
        ping_fails_def ping_answers_def initial_state_def)
  have len3: "3 < length outage_and_recovery" and len4: "4 < length outage_and_recovery"
    by (simp_all add: outage_and_recovery_def)
  have s4: "Suc 3 = 4" and s5: "Suc 4 = 5"
    by simp_all
  from outage_flag_transitions [of outage_and_recovery DEFAULTS initial_state, THEN spec,
      THEN mp, OF len3] off on
  have up: "\<not> run_ping (primary (outage_and_recovery ! 3))
      \<and> failure_threshold DEFAULTS
          \<le> failure_streak (monitor_states DEFAULTS outage_and_recovery initial_state ! 4)"
    by (simp only: s4) simp
  from outage_flag_transitions [of outage_and_recovery DEFAULTS initial_state, THEN spec,
      THEN mp, OF len4] on off_again
  have down: "run_ping (primary (outage_and_recovery ! 4))"
    by (simp only: s5) simp
  show ?thesis using off on off_again up down by simp
qed

subsection \<open>C4: entering the outage\<close>

text \<open>
  C4. In an iteration that starts outside an outage, whose primary ping fails and whose
  incremented streak is at least the threshold, the effects are: the primary ping, one
  ping of the router with a single attempt, one script (the network alert when the router
  answered, the power alert otherwise) and the closing sleep. The iteration leaves the
  outage flag on and the reminder clock at the reading of \<open>time.monotonic()\<close> it took.
\<close>

theorem outage_entry_diagnoses_once:
  assumes "\<not> in_outage s" and "\<not> run_ping (primary inp)"
    and "failure_streak s + 1 \<ge> failure_threshold cfg"
  shows "snd (tick cfg inp s) =
           [Ping (internet_ip cfg) (ping_count cfg), Ping (router_ip cfg) 1,
            RunScript (if run_ping (router inp) then alert_network_script cfg
                       else alert_power_script cfg),
            SleepInterval (check_interval_seconds cfg)]
       \<and> in_outage (fst (tick cfg inp s))
       \<and> last_reminder_monotonic (fst (tick cfg inp s)) = monotonic_first inp
       \<and> failure_streak (fst (tick cfg inp s)) = failure_streak s + 1"
  using assms by (simp add: tick_def Let_def)

text \<open>
  C4 at work, with the default threshold 4: in a run of four failed iterations the fourth
  one pings the router once and, the router answering, runs the network alert; the same
  fourth failure with the router silent runs the power alert.
\<close>

theorem outage_entry_diagnoses_once_witness:
  "monitor_events DEFAULTS four_failures initial_state ! 3
     = [Ping ''8.8.8.8'' 4, Ping ''172.168.133.1'' 1,
        RunScript ''send_alert_network_sms.py'', SleepInterval 30]
   \<and> scripts_run (snd (tick DEFAULTS all_dark
       (monitor_states DEFAULTS four_failures initial_state ! 3)))
     = [''send_alert_power_sms.py'']
   \<and> pings_issued (snd (tick DEFAULTS all_dark
       (monitor_states DEFAULTS four_failures initial_state ! 3)))
     = [(''8.8.8.8'', 4), (''172.168.133.1'', 1)]
   \<and> in_outage (fst (tick DEFAULTS all_dark
       (monitor_states DEFAULTS four_failures initial_state ! 3)))
   \<and> last_reminder_monotonic (fst (tick DEFAULTS all_dark
       (monitor_states DEFAULTS four_failures initial_state ! 3)))
     = 1000"
  using outage_entry_diagnoses_once [of
      "monitor_states DEFAULTS four_failures initial_state ! 3" ping_fails DEFAULTS]
    outage_entry_diagnoses_once [of
      "monitor_states DEFAULTS four_failures initial_state ! 3" all_dark DEFAULTS]
  unfolding fourth_iteration three_failures
  by (simp add: scripts_run_def pings_issued_def run_ping_def DEFAULTS_def
      ping_fails_def all_dark_def)

subsection \<open>C9: recovery\<close>

text \<open>
  C9. In an iteration whose primary ping succeeds: if the monitor is in an outage, it
  leaves the outage, sets the streak to 0 and runs exactly one script, the clear script;
  if it is not in an outage, it runs no script, stays out of the outage and sets the
  streak to 0.
\<close>

theorem reachable_tick_clears:
  assumes "run_ping (primary inp)"
  shows "(in_outage s \<longrightarrow>
            \<not> in_outage (fst (tick cfg inp s))
            \<and> failure_streak (fst (tick cfg inp s)) = 0
            \<and> scripts_run (snd (tick cfg inp s)) = [clear_script cfg])
       \<and> (\<not> in_outage s \<longrightarrow>
            \<not> in_outage (fst (tick cfg inp s))
            \<and> failure_streak (fst (tick cfg inp s)) = 0
            \<and> scripts_run (snd (tick cfg inp s)) = [])"
  using assms by (simp add: tick_reachable scripts_run_def)

text \<open>
  C9 at work: a good iteration in an outage with a streak of 7 clears it and runs the
  clear script; a good iteration after three failures runs nothing.
\<close>

theorem reachable_tick_clears_witness:
  "run_ping (primary ping_answers)
   \<and> \<not> in_outage (fst (tick DEFAULTS ping_answers
        \<lparr> failure_streak = 7, in_outage = True, last_reminder_monotonic = 1000 \<rparr>))
   \<and> failure_streak (fst (tick DEFAULTS ping_answers
        \<lparr> failure_streak = 7, in_outage = True, last_reminder_monotonic = 1000 \<rparr>)) = 0
   \<and> scripts_run (snd (tick DEFAULTS ping_answers
        \<lparr> failure_streak = 7, in_outage = True, last_reminder_monotonic = 1000 \<rparr>))
       = [''send_clear_sms.py'']
   \<and> failure_streak (fst (tick DEFAULTS ping_answers
        \<lparr> failure_streak = 3, in_outage = False, last_reminder_monotonic = 0 \<rparr>)) = 0
   \<and> scripts_run (snd (tick DEFAULTS ping_answers
        \<lparr> failure_streak = 3, in_outage = False, last_reminder_monotonic = 0 \<rparr>)) = []"
proof -
  have ok: "run_ping (primary ping_answers)"
    by (simp add: run_ping_def ping_answers_def)
  show ?thesis
    using reachable_tick_clears [OF ok, of
        "\<lparr> failure_streak = 7, in_outage = True, last_reminder_monotonic = 1000 \<rparr>" DEFAULTS]
      reachable_tick_clears [OF ok, of
        "\<lparr> failure_streak = 3, in_outage = False, last_reminder_monotonic = 0 \<rparr>" DEFAULTS]
      ok
    by (simp add: DEFAULTS_def)
qed


section \<open>Properties of the SMS sender\<close>

subsection \<open>Substrings and ASCII text\<close>

lemma starts_with_append: "starts_with (w @ b) w"
  by (induction w) auto

lemma starts_with_contains: "starts_with s w \<Longrightarrow> contains s w"
  by (cases s; cases w) auto

lemma contains_prepend: "contains s w \<Longrightarrow> contains (a @ s) w"
  by (induction a) auto

lemma contains_infix: "contains (a @ w @ b) w"
  by (simp add: contains_prepend starts_with_contains starts_with_append)

lemma is_ascii_Nil [simp]: "is_ascii []"
  by (simp add: is_ascii_def)

lemma is_ascii_Cons [simp]: "is_ascii (c # s) = ((of_char c :: nat) < 128 \<and> is_ascii s)"
  by (simp add: is_ascii_def)

lemma is_ascii_append [simp]: "is_ascii (a @ b) = (is_ascii a \<and> is_ascii b)"
  by (simp add: is_ascii_def)


subsection \<open>Sleeping\<close>



lemma short_sleeps:
  "\<not> refused (1 / 2) \<Longrightarrow> sleep_accepts refused (Finite (1 / 2))"
  "\<not> refused 1 \<Longrightarrow> sleep_accepts refused (Finite 1)"
  by (simp_all add: sleep_accepts_def sleep_limit_def)

lemma time_sleep_never_exits: "fst (time_sleep refused secs ser) \<noteq> Inl (Exit c)"
  by (cases secs) (simp_all add: time_sleep_def)


subsection \<open>What each exchange writes\<close>




lemma send_at_raises:
  "\<not> is_ascii cmd \<Longrightarrow>
     send_at ser cmd e = (Inl (Raise UnicodeEncodeError), emit [ResetInput] ser)"
  by (simp add: send_at_def)

lemma send_at_returns:
  "is_ascii cmd \<Longrightarrow>
     send_at ser cmd e =
       (let r = read_until (emit [ResetInput, Write (cmd @ [CHR 0x0D]), Flush] ser) [e, ''ERROR'']
        in (Inr (fst r \<and> contains (fst (snd r)) e, fst (snd r)), snd (snd r)))"
  by (simp add: send_at_def Let_def case_prod_beta emit_def)

lemma send_at_abnormal:
  "fst (send_at ser cmd e) = Inl a \<Longrightarrow> a = Raise UnicodeEncodeError \<and> \<not> is_ascii cmd"
  by (cases "is_ascii cmd") (simp_all add: send_at_raises send_at_returns Let_def)














subsection \<open>The handshake sends no message and is left by 3, 4, 5 or an exception\<close>















lemma leaves_by_time_sleep:
  "sleep_accepts refused secs \<or> {Raise OverflowError, Raise ValueError, Raise OSError} \<subseteq> A
     \<Longrightarrow> leaves_by A (time_sleep refused secs ser)"
  by (cases secs) (auto simp: sleep_accepts_def time_sleep_def leaves_by_def)







subsection \<open>The loop over the recipients\<close>











subsection \<open>\<open>main\<close>: the ways a run ends\<close>





subsection \<open>The example runs, evaluated\<close>



lemma second_silent_outcomes:
  "map fst (outcomes (main three_recipients second_silent)) = [True, False, True]"
  by code_simp


lemma second_silent_returns: "uncaught (main three_recipients second_silent) = None"
  by code_simp




subsection \<open>C2: when a recipient counts as delivered\<close>

text \<open>
  C2, the run on which the code departs from the claim. The modem gives the prompt, then
  \<open>+CMGS: 42\<close> in one polling round and \<open>OK\<close> in the next. \<open>read_until\<close> returns in the
  round that shows \<open>+CMGS\<close>, the first of its three tokens; the response then holds the
  reference 42 and no \<open>OK\<close>, and \<open>send_sms_to_number\<close>, which asks for \<open>+CMGS\<close> and
  \<open>OK\<close> both, returns \<open>False\<close> and logs a failure. A run of \<open>main\<close> with this one
  recipient exits with 8, although the modem acknowledged the message. When the modem
  gives the same acknowledgement in one chunk, the function returns \<open>True\<close> and the run
  exits with 0.
\<close>

theorem split_acknowledgement_reported_failed:
  "fst (send_sms_to_number line_split_ack ''+4911111'' ''hello'')
     = Inr (False, crlf @ ''+CMGS: 42'' @ crlf)
   \<and> search_cmgs (crlf @ ''+CMGS: 42'' @ crlf) = Some ''42''
   \<and> last (trace (snd (send_sms_to_number line_split_ack ''+4911111'' ''hello'')))
       = Log (SendFailed ''+4911111'' (crlf @ ''+CMGS: 42'' @ crlf))
   \<and> outcomes (main one_recipient split_ack) = [(False, crlf @ ''+CMGS: 42'' @ crlf)]
   \<and> status (main one_recipient split_ack) = 8
   \<and> fst (send_sms_to_number line_accepts ''+4911111'' ''hello'')
       = Inr (True, crlf @ ''+CMGS: 42'' @ crlf @ crlf @ ''OK'' @ crlf)
   \<and> last (trace (snd (send_sms_to_number line_accepts ''+4911111'' ''hello'')))
       = Log (Sent ''+4911111'' ''42'')
   \<and> status (main one_recipient all_accept) = 0"
  by code_simp

subsection \<open>C7: a missing prompt does not end the batch\<close>




subsection \<open>C8: the exit status\<close>




subsection \<open>C10: the pause between two sends\<close>




end
